theory Spec2Isabelle
  imports Complex_Main
begin

section \<open>Tensors and the errors of the numerical substrate\<close>

text \<open>
  The module \<^verbatim>\<open>ldm/modules/attention.py\<close> computes on torch tensors. A tensor in
  sequence form \<^verbatim>\<open>[batch, tokens, channels]\<close> is a list of matrices, a matrix a list
  of rows. Floating-point numbers are idealised as reals; rounding, overflow and
  underflow are outside this model. Every exception that a call can raise is a value
  of type \<open>error\<close>, and a fallible operation returns \<open>error + 'a\<close>.
\<close>

type_synonym vec = "real list"
type_synonym mat = "vec list"
type_synonym tensor = "mat list"
type_synonym grid = "real list list list list"

datatype error =
  ShapeMismatch | IndexError | TypeError | ValueError | ZeroDivisionError
  | NotImplementedError | NameError

definition bindE :: "error + 'a \<Rightarrow> ('a \<Rightarrow> error + 'b) \<Rightarrow> error + 'b" where
  "bindE m f = (case m of Inl e \<Rightarrow> Inl e | Inr v \<Rightarrow> f v)"

fun mapE :: "('a \<Rightarrow> error + 'b) \<Rightarrow> 'a list \<Rightarrow> error + 'b list" where
  "mapE f [] = Inr []"
| "mapE f (x # xs) = bindE (f x) (\<lambda>y. bindE (mapE f xs) (\<lambda>ys. Inr (y # ys)))"

text \<open>The shape of a tensor as far as its data shows it: the row lengths of every batch element.\<close>

definition shape3 :: "tensor \<Rightarrow> nat list list" where
  "shape3 t = map (map length) t"

definition dot :: "vec \<Rightarrow> vec \<Rightarrow> real" where
  "dot u w = sum_list (map2 (*) u w)"

text \<open>\<^verbatim>\<open>t * c\<close> for a Python float \<^verbatim>\<open>c\<close>.\<close>

definition tscale :: "tensor \<Rightarrow> real \<Rightarrow> tensor" where
  "tscale t c = map (map (map (\<lambda>a. a * c))) t"

text \<open>
  torch's broadcasting along one axis: the two sizes are equal, or one of them is 1 and
  its only element is used throughout; other sizes raise. (A nested list with an empty
  axis carries no sizes for the axes inside it.)
\<close>

definition broadcast ::
  "('a \<Rightarrow> 'b \<Rightarrow> error + 'c) \<Rightarrow> 'a list \<Rightarrow> 'b list \<Rightarrow> error + 'c list" where
  "broadcast f xs ys =
     (if length xs = length ys then mapE (\<lambda>(x, y). f x y) (zip xs ys)
      else case (xs, ys) of
             ([x], _) \<Rightarrow> mapE (f x) ys
           | (_, [y]) \<Rightarrow> mapE (\<lambda>x. f x y) xs
           | _ \<Rightarrow> Inl ShapeMismatch)"

text \<open>An entrywise operation on two tensors, broadcast along all three axes.\<close>

definition broadcast3 :: "(real \<Rightarrow> real \<Rightarrow> real) \<Rightarrow> tensor \<Rightarrow> tensor \<Rightarrow> error + tensor" where
  "broadcast3 f a b = broadcast (broadcast (broadcast (\<lambda>s t. Inr (f s t)))) a b"

text \<open>\<^verbatim>\<open>a + b\<close> on tensors.\<close>

definition tadd :: "tensor \<Rightarrow> tensor \<Rightarrow> error + tensor" where
  "tadd a b = broadcast3 (+) a b"

text \<open>\<^verbatim>\<open>torch.cat([t] * b)\<close> along axis 0; torch refuses an empty list of tensors.\<close>

definition cat_times :: "tensor \<Rightarrow> nat \<Rightarrow> error + tensor" where
  "cat_times t b = (if b = 0 then Inl ShapeMismatch else Inr (concat (replicate b t)))"

subsection \<open>nn.Linear\<close>

record Linear =
  in_features :: nat
  out_features :: nat
  weight :: mat
  bias :: "vec option"

definition Linear_row :: "Linear \<Rightarrow> vec \<Rightarrow> error + vec" where
  "Linear_row l x =
     (if length x = in_features l
      then Inr (case bias l of
                  None \<Rightarrow> map (\<lambda>w. dot w x) (weight l)
                | Some b \<Rightarrow> map2 (\<lambda>w c. dot w x + c) (weight l) b)
      else Inl ShapeMismatch)"

definition Linear_forward :: "Linear \<Rightarrow> tensor \<Rightarrow> error + tensor" where
  "Linear_forward l t = mapE (mapE (Linear_row l)) t"

subsection \<open>einops rearrangements and einsum\<close>

text \<open>\<^verbatim>\<open>rearrange(t, 'b n (h d) -> (b h) n d', h=h)\<close>\<close>

definition split_heads_mat :: "nat \<Rightarrow> mat \<Rightarrow> error + tensor" where
  "split_heads_mat h m =
     (if h = 0 \<or> \<not> list_all (\<lambda>r. length r mod h = 0) m then Inl ShapeMismatch
      else Inr (map (\<lambda>i. map (\<lambda>r. take (length r div h) (drop (i * (length r div h)) r)) m)
                    [0..<h]))"

definition split_heads :: "nat \<Rightarrow> tensor \<Rightarrow> error + tensor" where
  "split_heads h t = bindE (mapE (split_heads_mat h) t) (\<lambda>ts. Inr (concat ts))"

fun chunks :: "nat \<Rightarrow> 'a list \<Rightarrow> 'a list list" where
  "chunks h [] = []"
| "chunks h (x # xs) = (if h = 0 then [] else take h (x # xs) # chunks h (drop h (x # xs)))"

text \<open>\<^verbatim>\<open>rearrange(t, '(b h) n d -> b n (h d)', h=h)\<close>\<close>

definition merge_heads :: "nat \<Rightarrow> tensor \<Rightarrow> error + tensor" where
  "merge_heads h t =
     (if h = 0 \<or> length t mod h \<noteq> 0 then Inl ShapeMismatch
      else Inr (map (\<lambda>g. map concat (transpose g)) (chunks h t)))"

text \<open>
  \<^verbatim>\<open>einsum('b i d, b j d -> b i j', q, k)\<close>. The two einsums and \<^verbatim>\<open>masked_fill_\<close> below
  raise on any difference of the sizes their operands share; torch accepts a size of 1
  there as well.
\<close>

definition einsum_qk :: "tensor \<Rightarrow> tensor \<Rightarrow> error + tensor" where
  "einsum_qk q k =
     (if length q = length k
         \<and> list_all (\<lambda>(qb, kb). list_all (\<lambda>u. list_all (\<lambda>w. length u = length w) kb) qb) (zip q k)
      then Inr (map2 (\<lambda>qb kb. map (\<lambda>u. map (\<lambda>w. dot u w) kb) qb) q k)
      else Inl ShapeMismatch)"

text \<open>\<^verbatim>\<open>einsum('b i j, b j d -> b i d', attn, v)\<close>\<close>

definition einsum_av :: "tensor \<Rightarrow> tensor \<Rightarrow> error + tensor" where
  "einsum_av a v =
     (if length a = length v
         \<and> list_all (\<lambda>(ab, vb). list_all (\<lambda>r. length r = length vb) ab) (zip a v)
      then Inr (map2 (\<lambda>ab vb. map (\<lambda>r. map (\<lambda>c. dot r c) (transpose vb)) ab) a v)
      else Inl ShapeMismatch)"

text \<open>\<^verbatim>\<open>sim.softmax(dim=-1)\<close>\<close>

definition softmax_row :: "vec \<Rightarrow> vec" where
  "softmax_row r = map (\<lambda>s. exp s / sum_list (map exp r)) r"

definition softmax :: "tensor \<Rightarrow> tensor" where
  "softmax t = map (map softmax_row) t"

text \<open>\<^verbatim>\<open>torch.finfo(torch.float32).max\<close>: the similarity is computed in fp32 (line 224).\<close>

definition finfo_max :: real where
  "finfo_max = (2 - 1 / 2 ^ 23) * 2 ^ 127"

text \<open>
  Lines 236 to 239: the mask \<^verbatim>\<open>[b, j]\<close> is repeated for every head,
  \<^verbatim>\<open>'b j -> (b h) () j'\<close>, and \<^verbatim>\<open>sim.masked_fill_(~mask, max_neg_value)\<close> overwrites the
  entries whose mask is false, in every query row.
\<close>

definition repeat_mask :: "nat \<Rightarrow> bool list list \<Rightarrow> bool list list" where
  "repeat_mask h msk = concat (map (replicate h) msk)"

definition masked_fill :: "tensor \<Rightarrow> bool list list \<Rightarrow> real \<Rightarrow> error + tensor" where
  "masked_fill sim msk c =
     (if length sim = length msk
         \<and> list_all (\<lambda>(sb, mb). list_all (\<lambda>r. length r = length mb) sb) (zip sim msk)
      then Inr (map2 (\<lambda>sb mb. map (\<lambda>r. map2 (\<lambda>s keep. if keep then s else c) r mb) sb) sim msk)
      else Inl ShapeMismatch)"

section \<open>CrossAttention: the reference attention engine\<close>

text \<open>The dictionary \<^verbatim>\<open>injection_config\<close> with its keys \<^verbatim>\<open>'T'\<close> and \<^verbatim>\<open>'gamma'\<close>.\<close>

record InjectionConfig =
  cfg_T :: real
  cfg_gamma :: real

text \<open>
  The module with its parameters and the state it keeps after a call
  (\<^verbatim>\<open>self.attn\<close>, \<^verbatim>\<open>self.q\<close>, \<^verbatim>\<open>self.k\<close>, \<^verbatim>\<open>self.v\<close>). \<^verbatim>\<open>nn.Dropout\<close> in \<^verbatim>\<open>to_out\<close> is the
  identity (rate 0, or evaluation mode).
\<close>

record CrossAttention =
  heads :: nat
  scale :: real
  to_q :: Linear
  to_k :: Linear
  to_v :: Linear
  to_out :: Linear
  self_attn :: "tensor option"
  self_q :: "tensor option"
  self_k :: "tensor option"
  self_v :: "tensor option"

text \<open>\<^verbatim>\<open>rearrange(proj(t), 'b n (h d) -> (b h) n d', h=h)\<close>: a fresh projection, head-split.\<close>

definition project_heads :: "Linear \<Rightarrow> nat \<Rightarrow> tensor \<Rightarrow> error + tensor" where
  "project_heads proj h t = bindE (Linear_forward proj t) (split_heads h)"

text \<open>Lines 178 to 183: the defaults and what \<^verbatim>\<open>injection_config\<close> overrides.\<close>

definition attn_matrix_scale :: "InjectionConfig option \<Rightarrow> real" where
  "attn_matrix_scale injection_config =
     (case injection_config of None \<Rightarrow> 1 | Some c \<Rightarrow> cfg_T c)"

definition q_mix :: "InjectionConfig option \<Rightarrow> real" where
  "q_mix injection_config =
     (case injection_config of None \<Rightarrow> 0 | Some c \<Rightarrow> cfg_gamma c)"

text \<open>Lines 185 to 194: the query.\<close>

definition CrossAttention_q ::
  "CrossAttention \<Rightarrow> tensor \<Rightarrow> tensor option \<Rightarrow> InjectionConfig option \<Rightarrow> error + tensor" where
  "CrossAttention_q m x q_injected injection_config =
     (case q_injected of
        None \<Rightarrow> project_heads (to_q m) (heads m) x
      | Some q_uncond \<Rightarrow>
          bindE (cat_times q_uncond (length x)) (\<lambda>q_in.
          bindE (project_heads (to_q m) (heads m) x) (\<lambda>q_fresh.
          tadd (tscale q_in (q_mix injection_config))
               (tscale q_fresh (1 - q_mix injection_config)))))"

text \<open>Lines 197 to 209: the key and the value, each from the context or injected.\<close>

definition CrossAttention_kv ::
  "Linear \<Rightarrow> nat \<Rightarrow> tensor \<Rightarrow> nat \<Rightarrow> tensor option \<Rightarrow> error + tensor" where
  "CrossAttention_kv proj h context b injected =
     (case injected of
        None \<Rightarrow> project_heads proj h context
      | Some uncond \<Rightarrow> cat_times uncond b)"

text \<open>Lines 222 to 232: the similarity and its two scalings.\<close>

definition CrossAttention_sim ::
  "CrossAttention \<Rightarrow> tensor \<Rightarrow> tensor \<Rightarrow> tensor option \<Rightarrow> tensor option
     \<Rightarrow> InjectionConfig option \<Rightarrow> error + tensor" where
  "CrossAttention_sim m q k q_injected k_injected injection_config =
     bindE (einsum_qk q k) (\<lambda>sim.
       Inr (tscale (if q_injected \<noteq> None \<or> k_injected \<noteq> None
                    then tscale sim (attn_matrix_scale injection_config)
                    else sim)
                   (scale m)))"

text \<open>Lines 235 to 239.\<close>

definition CrossAttention_mask :: "nat \<Rightarrow> tensor \<Rightarrow> bool list list option \<Rightarrow> error + tensor" where
  "CrossAttention_mask h sim msk =
     (case msk of
        None \<Rightarrow> Inr sim
      | Some mk \<Rightarrow> masked_fill sim (repeat_mask h mk) (- finfo_max))"

text \<open>Lines 185 to 213: \<^verbatim>\<open>q\<close>, \<^verbatim>\<open>k\<close> and \<^verbatim>\<open>v\<close> as the attention uses them and as the module keeps them.\<close>

definition CrossAttention_qkv ::
  "CrossAttention \<Rightarrow> tensor \<Rightarrow> tensor option \<Rightarrow> tensor option \<Rightarrow> tensor option \<Rightarrow> tensor option
     \<Rightarrow> InjectionConfig option \<Rightarrow> error + (tensor \<times> tensor \<times> tensor)" where
  "CrossAttention_qkv m x context q_injected k_injected v_injected injection_config =
     bindE (CrossAttention_q m x q_injected injection_config) (\<lambda>q.
     bindE (CrossAttention_kv (to_k m) (heads m) (case context of None \<Rightarrow> x | Some c \<Rightarrow> c)
              (length x) k_injected) (\<lambda>k.
     bindE (CrossAttention_kv (to_v m) (heads m) (case context of None \<Rightarrow> x | Some c \<Rightarrow> c)
              (length x) v_injected) (\<lambda>v.
       Inr (q, k, v))))"

text \<open>The local \<^verbatim>\<open>sim\<close> of a call of \<^verbatim>\<open>forward\<close> once line 232 has run.\<close>

definition CrossAttention_similarity ::
  "CrossAttention \<Rightarrow> tensor \<Rightarrow> tensor option \<Rightarrow> tensor option \<Rightarrow> tensor option \<Rightarrow> tensor option
     \<Rightarrow> InjectionConfig option \<Rightarrow> error + tensor" where
  "CrossAttention_similarity m x context q_injected k_injected v_injected injection_config =
     bindE (CrossAttention_qkv m x context q_injected k_injected v_injected injection_config)
       (\<lambda>(q, k, v). CrossAttention_sim m q k q_injected k_injected injection_config)"

text \<open>\<^verbatim>\<open>CrossAttention.forward\<close>: the output and the module with its state overwritten.\<close>

definition CrossAttention_forward ::
  "CrossAttention \<Rightarrow> tensor \<Rightarrow> tensor option \<Rightarrow> bool list list option
     \<Rightarrow> tensor option \<Rightarrow> tensor option \<Rightarrow> tensor option \<Rightarrow> InjectionConfig option
     \<Rightarrow> error + (tensor \<times> CrossAttention)" where
  "CrossAttention_forward m x context msk q_injected k_injected v_injected injection_config =
     bindE (CrossAttention_qkv m x context q_injected k_injected v_injected injection_config)
       (\<lambda>(q, k, v).
     bindE (CrossAttention_sim m q k q_injected k_injected injection_config) (\<lambda>sim.
     bindE (CrossAttention_mask (heads m) sim msk) (\<lambda>sim'.
     bindE (einsum_av (softmax sim') v) (\<lambda>out.
     bindE (merge_heads (heads m) out) (\<lambda>out'.
     bindE (Linear_forward (to_out m) out') (\<lambda>y.
       Inr (y, m\<lparr>self_attn := Some (softmax sim'), self_q := Some q,
                    self_k := Some k, self_v := Some v\<rparr>)))))))"

text \<open>
  A smallest attention module, \<^verbatim>\<open>CrossAttention(query_dim=1, heads=1, dim_head=1)\<close> with
  all weights 1 and the output bias 0, for the concrete evaluations below.
\<close>

definition unit_linear :: Linear where
  "unit_linear = \<lparr>in_features = 1, out_features = 1, weight = [[1]], bias = None\<rparr>"

definition unit_attention :: CrossAttention where
  "unit_attention =
     \<lparr>heads = 1, scale = 1, to_q = unit_linear, to_k = unit_linear, to_v = unit_linear,
      to_out = unit_linear\<lparr>bias := Some [0]\<rparr>,
      self_attn = None, self_q = None, self_k = None, self_v = None\<rparr>"


section \<open>MemoryEfficientCrossAttention: the fused-kernel engine\<close>

text \<open>
  \<^verbatim>\<open>xformers.ops.memory_efficient_attention\<close> is a library call: the forward pass takes it
  as the parameter \<open>attend\<close> (a name error where the library is absent is one of its
  results). What the library documents is \<open>fused_attention\<close>, the softmax of
  \<^verbatim>\<open>q k\<^sup>t / sqrt d\<close> applied to \<^verbatim>\<open>v\<close>.
\<close>

type_synonym kernel = "tensor \<Rightarrow> tensor \<Rightarrow> tensor \<Rightarrow> error + tensor"

definition fused_attention :: "nat \<Rightarrow> kernel" where
  "fused_attention d q k v =
     bindE (einsum_qk q k) (\<lambda>s. einsum_av (softmax (tscale s (1 / sqrt (real d)))) v)"

record MemoryEfficientCrossAttention =
  me_heads :: nat
  me_dim_head :: nat
  me_to_q :: Linear
  me_to_k :: Linear
  me_to_v :: Linear
  me_to_out :: Linear

text \<open>
  Lines 345 to 352:
  \<^verbatim>\<open>t.unsqueeze(3).reshape(b, n, heads, dim_head).permute(0, 2, 1, 3).reshape(b * heads, n, dim_head)\<close>
\<close>

definition reshape_heads :: "nat \<Rightarrow> nat \<Rightarrow> tensor \<Rightarrow> error + tensor" where
  "reshape_heads h d t =
     (if list_all (list_all (\<lambda>r. length r = h * d)) t
      then Inr (concat (map (\<lambda>m. map (\<lambda>i. map (\<lambda>r. take d (drop (i * d) r)) m) [0..<h]) t))
      else Inl ShapeMismatch)"

text \<open>
  Lines 359 to 364:
  \<^verbatim>\<open>out.unsqueeze(0).reshape(b, heads, n, dim_head).permute(0, 2, 1, 3).reshape(b, n, heads * dim_head)\<close>
\<close>

definition unreshape_heads :: "nat \<Rightarrow> nat \<Rightarrow> nat \<Rightarrow> tensor \<Rightarrow> error + tensor" where
  "unreshape_heads b h d t =
     (if length t = b * h \<and> list_all (list_all (\<lambda>r. length r = d)) t \<and> h \<noteq> 0
      then Inr (map (\<lambda>g. map concat (transpose g)) (chunks h t))
      else Inl ShapeMismatch)"

text \<open>\<^verbatim>\<open>MemoryEfficientCrossAttention.forward\<close>: the mask is looked at after the kernel has run.\<close>

definition MemoryEfficientCrossAttention_forward ::
  "kernel \<Rightarrow> MemoryEfficientCrossAttention \<Rightarrow> tensor \<Rightarrow> tensor option \<Rightarrow> bool list list option
     \<Rightarrow> error + tensor" where
  "MemoryEfficientCrossAttention_forward attend m x context msk =
     bindE (Linear_forward (me_to_q m) x) (\<lambda>q.
     bindE (Linear_forward (me_to_k m) (case context of None \<Rightarrow> x | Some c \<Rightarrow> c)) (\<lambda>k.
     bindE (Linear_forward (me_to_v m) (case context of None \<Rightarrow> x | Some c \<Rightarrow> c)) (\<lambda>v.
     bindE (reshape_heads (me_heads m) (me_dim_head m) q) (\<lambda>q'.
     bindE (reshape_heads (me_heads m) (me_dim_head m) k) (\<lambda>k'.
     bindE (reshape_heads (me_heads m) (me_dim_head m) v) (\<lambda>v'.
     bindE (attend q' k' v') (\<lambda>out.
       if msk \<noteq> None then Inl NotImplementedError
       else bindE (unreshape_heads (length q) (me_heads m) (me_dim_head m) out)
              (Linear_forward (me_to_out m)))))))))"

text \<open>\<^verbatim>\<open>MemoryEfficientCrossAttention(query_dim=1, heads=1, dim_head=1)\<close> with all weights 1.\<close>

definition unit_memory_efficient :: MemoryEfficientCrossAttention where
  "unit_memory_efficient =
     \<lparr>me_heads = 1, me_dim_head = 1, me_to_q = unit_linear, me_to_k = unit_linear,
      me_to_v = unit_linear, me_to_out = unit_linear\<lparr>bias := Some [0]\<rparr>\<rparr>"

section \<open>Normalisation and feed-forward\<close>

text \<open>
  \<^verbatim>\<open>F.gelu\<close> is the exact GELU, \<^verbatim>\<open>x / 2 * (1 + erf (x / sqrt 2))\<close>; the error function is
  its power series.
\<close>

definition erf :: "real \<Rightarrow> real" where
  "erf x = 2 / sqrt pi * (\<Sum>n. (- 1) ^ n * x ^ (2 * n + 1) / (fact n * real (2 * n + 1)))"

definition gelu :: "real \<Rightarrow> real" where
  "gelu x = x * (1 / 2) * (1 + erf (x / sqrt 2))"

definition mean :: "vec \<Rightarrow> real" where
  "mean r = sum_list r / real (length r)"

definition variance :: "vec \<Rightarrow> real" where
  "variance r = mean (map (\<lambda>a. (a - mean r) ^ 2) r)"

text \<open>
  The initial values that torch draws at random for a parameter, by its name (the number
  of the transformer block and the path inside it) and shape.
\<close>

type_synonym key = "nat \<times> string"

definition sub :: "key \<Rightarrow> string \<Rightarrow> key" where
  "sub name s = (fst name, snd name @ s)"

record rng =
  rng_weight :: "key \<Rightarrow> nat \<Rightarrow> nat \<Rightarrow> mat"
  rng_bias :: "key \<Rightarrow> nat \<Rightarrow> vec"

definition Linear_init :: "rng \<Rightarrow> key \<Rightarrow> nat \<Rightarrow> nat \<Rightarrow> bool \<Rightarrow> Linear" where
  "Linear_init g name i out with_bias =
     \<lparr>in_features = i, out_features = out, weight = rng_weight g name out i,
      bias = (if with_bias then Some (rng_bias g name out) else None)\<rparr>"

text \<open>\<^verbatim>\<open>zero_module\<close>: every parameter of the module becomes zero.\<close>

definition zero_module :: "Linear \<Rightarrow> Linear" where
  "zero_module l = l\<lparr>weight := map (map (\<lambda>_. 0)) (weight l),
                       bias := map_option (map (\<lambda>_. 0)) (bias l)\<rparr>"

subsection \<open>nn.LayerNorm\<close>

record LayerNorm =
  ln_weight :: vec
  ln_bias :: vec

definition LayerNorm_init :: "nat \<Rightarrow> LayerNorm" where
  "LayerNorm_init n = \<lparr>ln_weight = replicate n 1, ln_bias = replicate n 0\<rparr>"

definition LayerNorm_row :: "LayerNorm \<Rightarrow> vec \<Rightarrow> error + vec" where
  "LayerNorm_row nrm r =
     (if length r = length (ln_weight nrm)
      then Inr (map2 (\<lambda>a (w, b). (a - mean r) / sqrt (variance r + 1 / 10 ^ 5) * w + b)
                     r (zip (ln_weight nrm) (ln_bias nrm)))
      else Inl ShapeMismatch)"

definition LayerNorm_forward :: "LayerNorm \<Rightarrow> tensor \<Rightarrow> error + tensor" where
  "LayerNorm_forward nrm t = mapE (mapE (LayerNorm_row nrm)) t"

subsection \<open>Normalize: nn.GroupNorm with 32 groups\<close>

record GroupNorm =
  gn_weight :: vec
  gn_bias :: vec

definition Normalize :: "nat \<Rightarrow> error + GroupNorm" where
  "Normalize in_channels =
     (if in_channels mod 32 = 0
      then Inr \<lparr>gn_weight = replicate in_channels 1, gn_bias = replicate in_channels 0\<rparr>
      else Inl ValueError)"

text \<open>One group of channels, each with its weight and bias, normalised over all its entries.\<close>

definition GroupNorm_group :: "(real list list \<times> real \<times> real) list \<Rightarrow> real list list list" where
  "GroupNorm_group grp =
     (let es = concat (concat (map fst grp)) in
      map (\<lambda>(ch, w, b). map (map (\<lambda>a. (a - mean es) / sqrt (variance es + 1 / 10 ^ 6) * w + b)) ch)
          grp)"

text \<open>
  \<^verbatim>\<open>F.group_norm\<close> first verifies the batch size of an input \<^verbatim>\<open>[b, c, h, w]\<close>: it raises
  \<^verbatim>\<open>ValueError\<close> (more than one value per channel is expected) when
  \<^verbatim>\<open>(b * c // 32) * h * w = 1\<close>.
\<close>

definition group_norm_size :: "grid \<Rightarrow> nat" where
  "group_norm_size x =
     (case x of
        (ch # chs) # xbs \<Rightarrow>
          (length x * length (ch # chs) div 32) * length ch
            * (case ch of r # _ \<Rightarrow> length r | [] \<Rightarrow> 0)
      | _ \<Rightarrow> 0)"

definition GroupNorm_forward :: "GroupNorm \<Rightarrow> grid \<Rightarrow> error + grid" where
  "GroupNorm_forward gn x =
     (if group_norm_size x = 1 then Inl ValueError
      else mapE (\<lambda>xb. if length xb = length (gn_weight gn)
                       then Inr (concat (map GroupNorm_group
                                   (chunks (length xb div 32)
                                      (zip xb (zip (gn_weight gn) (gn_bias gn))))))
                       else Inl ShapeMismatch) x)"

subsection \<open>FeedForward\<close>

datatype project_in = PlainGELU Linear | GEGLU Linear

record FeedForward =
  ff_project_in :: project_in
  ff_out :: Linear

definition FeedForward_init :: "rng \<Rightarrow> key \<Rightarrow> nat \<Rightarrow> bool \<Rightarrow> FeedForward" where
  "FeedForward_init g name n glu =
     \<lparr>ff_project_in = (if \<not> glu then PlainGELU (Linear_init g (sub name ''.net.0.0'') n (n * 4) True)
                        else GEGLU (Linear_init g (sub name ''.net.0.proj'') n (n * 4 * 2) True)),
      ff_out = Linear_init g (sub name ''.net.2'') (n * 4) n True\<rparr>"

text \<open>
  \<^verbatim>\<open>GEGLU.forward\<close>: \<^verbatim>\<open>chunk(2, dim=-1)\<close> halves the projection, whose width
  \<^verbatim>\<open>dim_out * 2\<close> is even.
\<close>

definition project_in_row :: "project_in \<Rightarrow> vec \<Rightarrow> error + vec" where
  "project_in_row p r =
     (case p of
        PlainGELU l \<Rightarrow> bindE (Linear_row l r) (\<lambda>y. Inr (map gelu y))
      | GEGLU l \<Rightarrow>
          bindE (Linear_row l r) (\<lambda>y.
            if even (length y)
            then Inr (map2 (\<lambda>a gate. a * gelu gate)
                           (take (length y div 2) y) (drop (length y div 2) y))
            else Inl ShapeMismatch))"

definition FeedForward_forward :: "FeedForward \<Rightarrow> tensor \<Rightarrow> error + tensor" where
  "FeedForward_forward f t =
     bindE (mapE (mapE (project_in_row (ff_project_in f))) t) (Linear_forward (ff_out f))"

section \<open>Construction of the attention engines\<close>

text \<open>\<^verbatim>\<open>CrossAttention.__init__\<close>; \<^verbatim>\<open>dim_head ** -0.5\<close> raises for \<^verbatim>\<open>dim_head = 0\<close>.\<close>

definition CrossAttention_init ::
  "rng \<Rightarrow> key \<Rightarrow> nat \<Rightarrow> nat option \<Rightarrow> nat \<Rightarrow> nat \<Rightarrow> error + CrossAttention" where
  "CrossAttention_init g name query_dim context_dim n_heads dim_head =
     (if dim_head = 0 then Inl ZeroDivisionError
      else Inr \<lparr>heads = n_heads, scale = real dim_head powr (- 1 / 2),
                to_q = Linear_init g (sub name ''.to_q'') query_dim (dim_head * n_heads) False,
                to_k = Linear_init g (sub name ''.to_k'')
                         (case context_dim of None \<Rightarrow> query_dim | Some c \<Rightarrow> c)
                         (dim_head * n_heads) False,
                to_v = Linear_init g (sub name ''.to_v'')
                         (case context_dim of None \<Rightarrow> query_dim | Some c \<Rightarrow> c)
                         (dim_head * n_heads) False,
                to_out = Linear_init g (sub name ''.to_out.0'') (dim_head * n_heads) query_dim True,
                self_attn = None, self_q = None, self_k = None, self_v = None\<rparr>)"

definition MemoryEfficientCrossAttention_init ::
  "rng \<Rightarrow> key \<Rightarrow> nat \<Rightarrow> nat option \<Rightarrow> nat \<Rightarrow> nat \<Rightarrow> MemoryEfficientCrossAttention" where
  "MemoryEfficientCrossAttention_init g name query_dim context_dim n_heads dim_head =
     \<lparr>me_heads = n_heads, me_dim_head = dim_head,
      me_to_q = Linear_init g (sub name ''.to_q'') query_dim (dim_head * n_heads) False,
      me_to_k = Linear_init g (sub name ''.to_k'')
                  (case context_dim of None \<Rightarrow> query_dim | Some c \<Rightarrow> c) (dim_head * n_heads) False,
      me_to_v = Linear_init g (sub name ''.to_v'')
                  (case context_dim of None \<Rightarrow> query_dim | Some c \<Rightarrow> c) (dim_head * n_heads) False,
      me_to_out = Linear_init g (sub name ''.to_out.0'') (dim_head * n_heads) query_dim True\<rparr>"

section \<open>BasicTransformerBlock\<close>

text \<open>
  \<^verbatim>\<open>ATTENTION_MODES\<close>: the class of both attention sublayers, \<^verbatim>\<open>"softmax-xformers"\<close> where
  the xformers library was found at import and \<^verbatim>\<open>"softmax"\<close> otherwise.
\<close>

datatype attention = Softmax CrossAttention | SoftmaxXformers MemoryEfficientCrossAttention

definition attn_cls ::
  "bool \<Rightarrow> rng \<Rightarrow> key \<Rightarrow> nat \<Rightarrow> nat option \<Rightarrow> nat \<Rightarrow> nat \<Rightarrow> error + attention" where
  "attn_cls xformers_is_available g name query_dim context_dim n_heads dim_head =
     (if xformers_is_available
      then Inr (SoftmaxXformers
                  (MemoryEfficientCrossAttention_init g name query_dim context_dim n_heads dim_head))
      else bindE (CrossAttention_init g name query_dim context_dim n_heads dim_head)
             (\<lambda>m. Inr (Softmax m)))"

record BasicTransformerBlock =
  disable_self_attn :: bool
  attn1 :: attention
  ff :: FeedForward
  attn2 :: attention
  norm1 :: LayerNorm
  norm2 :: LayerNorm
  norm3 :: LayerNorm
  checkpoint :: bool

text \<open>\<^verbatim>\<open>BasicTransformerBlock.__init__\<close>, for the block number \<open>d\<close> of a transformer.\<close>

definition BasicTransformerBlock_init ::
  "bool \<Rightarrow> rng \<Rightarrow> nat \<Rightarrow> nat \<Rightarrow> nat \<Rightarrow> nat \<Rightarrow> nat option \<Rightarrow> bool \<Rightarrow> bool \<Rightarrow> bool
     \<Rightarrow> error + BasicTransformerBlock" where
  "BasicTransformerBlock_init xformers_is_available g d n n_heads d_head context_dim gated_ff
       use_checkpoint disable =
     bindE (attn_cls xformers_is_available g (d, ''attn1'') n
              (if disable then context_dim else None) n_heads d_head) (\<lambda>a1.
     bindE (attn_cls xformers_is_available g (d, ''attn2'') n context_dim n_heads d_head) (\<lambda>a2.
       Inr \<lparr>disable_self_attn = disable, attn1 = a1,
            ff = FeedForward_init g (d, ''ff'') n gated_ff, attn2 = a2,
            norm1 = LayerNorm_init n, norm2 = LayerNorm_init n, norm3 = LayerNorm_init n,
            checkpoint = use_checkpoint\<rparr>))"

text \<open>
  The call \<^verbatim>\<open>self.attn1(self.norm1(x), q_injected=..., k_injected=..., v_injected=...,
  injection_config=...)\<close> of lines 413 to 417: no \<^verbatim>\<open>context\<close> and no \<^verbatim>\<open>mask\<close> is passed. The
  forward pass of the memory-efficient engine has none of the four keywords.
\<close>

definition attn1_call ::
  "attention \<Rightarrow> tensor \<Rightarrow> tensor option \<Rightarrow> tensor option \<Rightarrow> tensor option
     \<Rightarrow> InjectionConfig option \<Rightarrow> error + (tensor \<times> attention)" where
  "attn1_call a x q_injected k_injected v_injected injection_config =
     (case a of
        Softmax m \<Rightarrow>
          bindE (CrossAttention_forward m x None None q_injected k_injected v_injected
                   injection_config)
            (\<lambda>(y, m'). Inr (y, Softmax m'))
      | SoftmaxXformers m \<Rightarrow> Inl TypeError)"

text \<open>The call \<^verbatim>\<open>self.attn2(self.norm2(x), context=context)\<close> of line 419.\<close>

definition attn2_call ::
  "kernel \<Rightarrow> attention \<Rightarrow> tensor \<Rightarrow> tensor option \<Rightarrow> error + (tensor \<times> attention)" where
  "attn2_call attend a x context =
     (case a of
        Softmax m \<Rightarrow>
          bindE (CrossAttention_forward m x context None None None None None)
            (\<lambda>(y, m'). Inr (y, Softmax m'))
      | SoftmaxXformers m \<Rightarrow>
          bindE (MemoryEfficientCrossAttention_forward attend m x context None)
            (\<lambda>y. Inr (y, SoftmaxXformers m)))"

text \<open>
  \<^verbatim>\<open>BasicTransformerBlock._forward\<close>; \<^verbatim>\<open>forward\<close> runs it through \<^verbatim>\<open>checkpoint\<close>, which
  changes when activations are computed and not what is computed.
\<close>

definition BasicTransformerBlock_forward ::
  "kernel \<Rightarrow> BasicTransformerBlock \<Rightarrow> tensor \<Rightarrow> tensor option
     \<Rightarrow> tensor option \<Rightarrow> tensor option \<Rightarrow> tensor option \<Rightarrow> InjectionConfig option
     \<Rightarrow> error + (tensor \<times> BasicTransformerBlock)" where
  "BasicTransformerBlock_forward attend blk x context self_attn_q_injected self_attn_k_injected
       self_attn_v_injected injection_config =
     bindE (LayerNorm_forward (norm1 blk) x) (\<lambda>n1.
     bindE (attn1_call (attn1 blk) n1 self_attn_q_injected self_attn_k_injected
              self_attn_v_injected injection_config) (\<lambda>(xa, a1).
     bindE (tadd xa x) (\<lambda>x1.
     bindE (LayerNorm_forward (norm2 blk) x1) (\<lambda>n2.
     bindE (attn2_call attend (attn2 blk) n2 context) (\<lambda>(y2, a2).
     bindE (tadd y2 x1) (\<lambda>x2.
     bindE (LayerNorm_forward (norm3 blk) x2) (\<lambda>n3.
     bindE (FeedForward_forward (ff blk) n3) (\<lambda>y3.
     bindE (tadd y3 x2) (\<lambda>x3.
       Inr (x3, blk\<lparr>attn1 := a1, attn2 := a2\<rparr>))))))))))"

text \<open>The keys \<^verbatim>\<open>self.k\<close> that the two attention sublayers of a block keep after a call.\<close>

definition kept_keys :: "BasicTransformerBlock \<Rightarrow> tensor option \<times> tensor option" where
  "kept_keys blk =
     (case attn1 blk of Softmax m \<Rightarrow> self_k m | SoftmaxXformers m \<Rightarrow> None,
      case attn2 blk of Softmax m \<Rightarrow> self_k m | SoftmaxXformers m \<Rightarrow> None)"

section \<open>SpatialTransformer\<close>

text \<open>\<^verbatim>\<open>rearrange(x, 'b c h w -> b (h w) c')\<close>: the pixel \<open>(i, j)\<close> becomes the token \<open>i * w + j\<close>.\<close>

definition grid_to_tokens :: "grid \<Rightarrow> tensor" where
  "grid_to_tokens x = map (\<lambda>xb. transpose (map concat xb)) x"

text \<open>\<^verbatim>\<open>rearrange(x, 'b (h w) c -> b c h w', h=h, w=w)\<close>\<close>

definition tokens_to_grid :: "nat \<Rightarrow> nat \<Rightarrow> tensor \<Rightarrow> error + grid" where
  "tokens_to_grid h w t =
     mapE (\<lambda>m. if length m = h * w then Inr (map (chunks w) (transpose m))
                else Inl ShapeMismatch) t"

text \<open>The height and the width in \<^verbatim>\<open>b, c, h, w = x.shape\<close>.\<close>

definition grid_hw :: "grid \<Rightarrow> nat \<times> nat" where
  "grid_hw x =
     (case x of
        (ch # _) # _ \<Rightarrow> (length ch, case ch of r # _ \<Rightarrow> length r | [] \<Rightarrow> 0)
      | _ \<Rightarrow> (0, 0))"

text \<open>A convolution with kernel size 1, stride 1 and no padding is the linear map of every pixel.\<close>

definition conv1x1 :: "Linear \<Rightarrow> grid \<Rightarrow> error + grid" where
  "conv1x1 l x =
     bindE (Linear_forward l (grid_to_tokens x))
       (tokens_to_grid (fst (grid_hw x)) (snd (grid_hw x)))"

text \<open>
  \<^verbatim>\<open>x + x_in\<close> of line 526, on two grids of one shape: the output projection gives
  \<^verbatim>\<open>in_channels\<close> channels on the height and width of the input.
\<close>

definition shape4 :: "grid \<Rightarrow> nat list list list" where
  "shape4 x = map (map (map length)) x"

definition gadd :: "grid \<Rightarrow> grid \<Rightarrow> error + grid" where
  "gadd a b = (if shape4 a = shape4 b then Inr (map2 (map2 (map2 (map2 (+)))) a b)
               else Inl ShapeMismatch)"

text \<open>The argument \<^verbatim>\<open>context_dim\<close>: \<^verbatim>\<open>None\<close>, a number, or a list.\<close>

datatype context_dim = NoDim | OneDim nat | DimList "nat option list"

text \<open>The argument \<^verbatim>\<open>context\<close>: a list of one context for every block, or anything else.\<close>

datatype context_arg = Single "tensor option" | PerBlock "tensor option list"

record SpatialTransformer =
  in_channels :: nat
  st_norm :: GroupNorm
  proj_in :: Linear
  transformer_blocks :: "BasicTransformerBlock list"
  proj_out :: Linear
  use_linear :: bool

text \<open>
  \<^verbatim>\<open>SpatialTransformer.__init__\<close>. Lines 447 and 448 wrap a \<^verbatim>\<open>context_dim\<close> that is neither
  \<^verbatim>\<open>None\<close> nor a list; line 462 reads \<^verbatim>\<open>context_dim[d]\<close> for every block; lines 466 to
  473 build the zeroed output projection, \<^verbatim>\<open>nn.Conv2d(inner_dim, in_channels)\<close> or
  \<^verbatim>\<open>nn.Linear(in_channels, inner_dim)\<close>.
\<close>

definition SpatialTransformer_init ::
  "bool \<Rightarrow> rng \<Rightarrow> nat \<Rightarrow> nat \<Rightarrow> nat \<Rightarrow> nat \<Rightarrow> context_dim \<Rightarrow> bool \<Rightarrow> bool \<Rightarrow> bool
     \<Rightarrow> error + SpatialTransformer" where
  "SpatialTransformer_init xformers_is_available g n_in n_heads d_head depth cdim disable lin
       use_checkpoint =
     bindE (Normalize n_in) (\<lambda>nrm.
     bindE (mapE (\<lambda>d. case cdim of
                         NoDim \<Rightarrow> Inl TypeError
                       | OneDim c \<Rightarrow>
                           if d < length [c]
                           then BasicTransformerBlock_init xformers_is_available g d
                                  (n_heads * d_head) n_heads d_head (Some c) True use_checkpoint disable
                           else Inl IndexError
                       | DimList cs \<Rightarrow>
                           if d < length cs
                           then BasicTransformerBlock_init xformers_is_available g d
                                  (n_heads * d_head) n_heads d_head (cs ! d) True use_checkpoint disable
                           else Inl IndexError)
                  [0..<depth]) (\<lambda>blocks.
       Inr \<lparr>in_channels = n_in, st_norm = nrm,
            proj_in = Linear_init g (0, ''proj_in'') n_in (n_heads * d_head) True,
            transformer_blocks = blocks,
            proj_out = zero_module
                         (if \<not> lin
                          then Linear_init g (0, ''proj_out'') (n_heads * d_head) n_in True
                          else Linear_init g (0, ''proj_out'') n_in (n_heads * d_head) True),
            use_linear = lin\<rparr>))"

text \<open>Lines 513 to 520: block \<open>i\<close> runs on \<^verbatim>\<open>context[i]\<close>.\<close>

fun run_blocks ::
  "kernel \<Rightarrow> BasicTransformerBlock list \<Rightarrow> tensor option list \<Rightarrow> nat \<Rightarrow> tensor
     \<Rightarrow> tensor option \<Rightarrow> tensor option \<Rightarrow> tensor option \<Rightarrow> InjectionConfig option
     \<Rightarrow> error + (tensor \<times> BasicTransformerBlock list)" where
  "run_blocks attend [] cs i x qi ki vi cfg = Inr (x, [])"
| "run_blocks attend (blk # blks) cs i x qi ki vi cfg =
     (if i < length cs
      then bindE (BasicTransformerBlock_forward attend blk x (cs ! i) qi ki vi cfg) (\<lambda>(x', blk').
           bindE (run_blocks attend blks cs (i + 1) x' qi ki vi cfg) (\<lambda>(y, blks').
             Inr (y, blk' # blks')))
      else Inl IndexError)"

text \<open>\<^verbatim>\<open>SpatialTransformer.forward\<close>\<close>

definition SpatialTransformer_forward ::
  "kernel \<Rightarrow> SpatialTransformer \<Rightarrow> grid \<Rightarrow> context_arg
     \<Rightarrow> tensor option \<Rightarrow> tensor option \<Rightarrow> tensor option \<Rightarrow> InjectionConfig option
     \<Rightarrow> error + (grid \<times> SpatialTransformer)" where
  "SpatialTransformer_forward attend st x ctx self_attn_q_injected self_attn_k_injected
       self_attn_v_injected injection_config =
     bindE (GroupNorm_forward (st_norm st) x) (\<lambda>xn.
     bindE (if \<not> use_linear st then conv1x1 (proj_in st) xn else Inr xn) (\<lambda>xp.
     bindE (if use_linear st then Linear_forward (proj_in st) (grid_to_tokens xp)
            else Inr (grid_to_tokens xp)) (\<lambda>t.
     bindE (run_blocks attend (transformer_blocks st)
              (case ctx of PerBlock cs \<Rightarrow> cs | Single c \<Rightarrow> [c]) 0 t
              self_attn_q_injected self_attn_k_injected self_attn_v_injected injection_config)
       (\<lambda>(t', blocks).
     bindE (if use_linear st then Linear_forward (proj_out st) t' else Inr t') (\<lambda>t''.
     bindE (tokens_to_grid (fst (grid_hw x)) (snd (grid_hw x)) t'') (\<lambda>y.
     bindE (if \<not> use_linear st then conv1x1 (proj_out st) y else Inr y) (\<lambda>y'.
     bindE (gadd y' x) (\<lambda>out.
       Inr (out, st\<lparr>transformer_blocks := blocks\<rparr>)))))))))"

text \<open>Initial values for the concrete evaluations below: every weight 1 and every bias 0.\<close>

definition ones :: rng where
  "ones = \<lparr>rng_weight = (\<lambda>name rows cols. replicate rows (replicate cols 1)),
           rng_bias = (\<lambda>name rows. replicate rows 0)\<rparr>"

text \<open>A tensor all of whose entries are zero.\<close>

definition zeros3 :: "tensor \<Rightarrow> bool" where
  "zeros3 t = (\<forall>m\<in>set t. \<forall>r\<in>set m. \<forall>a\<in>set r. a = 0)"

text \<open>
  Three smallest transformers on 32 channels (the least positive number that
  \<^verbatim>\<open>Normalize\<close> accepts) with \<^verbatim>\<open>n_heads = d_head = 1\<close>, without xformers, to be run
  on the constant grid 2 of shape \<^verbatim>\<open>[1, 32, 1, 2]\<close>:
  \<^verbatim>\<open>SpatialTransformer(32, 1, 1, depth=1, context_dim=1, use_linear=True)\<close>, the same with
  \<^verbatim>\<open>use_linear=False\<close>, and \<^verbatim>\<open>SpatialTransformer(32, 1, 1, depth=2, context_dim=[1, 1])\<close>.
\<close>

definition linear_transformer :: SpatialTransformer where
  "linear_transformer =
     projr (SpatialTransformer_init False ones 32 1 1 1 (OneDim 1) False True True)"

definition conv_transformer :: SpatialTransformer where
  "conv_transformer =
     projr (SpatialTransformer_init False ones 32 1 1 1 (OneDim 1) False False True)"

definition two_block_transformer :: SpatialTransformer where
  "two_block_transformer =
     projr (SpatialTransformer_init False ones 32 1 1 2 (DimList [Some 1, Some 1])
              False False True)"

section \<open>Properties\<close>

subsection \<open>Auxiliary facts\<close>

lemma bindE_Inr_iff: "bindE m f = Inr r \<longleftrightarrow> (\<exists>v. m = Inr v \<and> f v = Inr r)"
  by (cases m) (simp_all add: bindE_def)

lemma bindE_Inr [simp]: "bindE (Inr v) f = f v"
  by (simp add: bindE_def)

lemma bindE_Inl [simp]: "bindE (Inl e) f = Inl e"
  by (simp add: bindE_def)

lemma map2_second: "length u = length w \<Longrightarrow> map2 (\<lambda>a b. b) u w = w"
  by (induction u w rule: list_induct2) simp_all

lemma map2_first: "length u = length w \<Longrightarrow> map2 (\<lambda>a b. a) u w = u"
  by (induction u w rule: list_induct2) simp_all

lemma tscale_one [simp]: "tscale t 1 = t"
  by (simp add: tscale_def)

lemma shape3_tscale [simp]: "shape3 (tscale t c) = shape3 t"
  by (simp add: shape3_def tscale_def comp_def)

lemma mapE_map: "mapE f (map g xs) = mapE (\<lambda>x. f (g x)) xs"
  by (induction xs) simp_all

lemma broadcast_map:
  "broadcast f (map g xs) (map h ys) = broadcast (\<lambda>x y. f (g x) (h y)) xs ys"
proof (cases "length xs = length ys")
  case True
  then show ?thesis
    by (simp add: broadcast_def zip_map_map mapE_map split_def)
next
  case False
  show ?thesis
  proof (cases xs)
    case Nil with False show ?thesis
      by (cases ys) (auto simp: broadcast_def mapE_map split: list.splits)
  next
    case (Cons x xs')
    show ?thesis
    proof (cases xs')
      case Nil with Cons False show ?thesis
        by (auto simp: broadcast_def mapE_map)
    next
      case (Cons x' xs'')
      with \<open>xs = x # xs'\<close> False show ?thesis
        by (cases ys; cases "tl ys") (auto simp: broadcast_def mapE_map)
    qed
  qed
qed

lemma tadd_tscale:
  "tadd (tscale a g) (tscale b h) = broadcast3 (\<lambda>s t. s * g + t * h) a b"
  by (simp add: tadd_def broadcast3_def tscale_def broadcast_map)

lemma broadcast_same:
  assumes "map sh xs = map sh' ys"
    and "\<And>x y. x \<in> set xs \<Longrightarrow> sh x = sh' y \<Longrightarrow> f x y = Inr (g x y)"
  shows "broadcast f xs ys = Inr (map2 g xs ys)"
proof -
  from assms(1) have len: "length xs = length ys" by (metis length_map)
  have "mapE (\<lambda>(x, y). f x y) (zip xs ys) = Inr (map2 g xs ys)"
    using assms
  proof (induction xs arbitrary: ys)
    case Nil then show ?case by simp
  next
    case (Cons x xs)
    then obtain y ys' where ys: "ys = y # ys'" by (cases ys) auto
    with Cons.prems(1) have "sh x = sh' y" "map sh xs = map sh' ys'" by simp_all
    with Cons.IH [of ys'] Cons.prems(2) ys show ?case by simp
  qed
  with len show ?thesis by (simp add: broadcast_def)
qed

lemma broadcast3_same_shape:
  assumes "shape3 a = shape3 b"
  shows "broadcast3 f a b = Inr (map2 (map2 (map2 f)) a b)"
  unfolding broadcast3_def
proof (rule broadcast_same [where sh = "map length" and sh' = "map length"])
  show "map (map length) a = map (map length) b" using assms by (simp add: shape3_def)
next
  fix m n :: mat assume "map length m = map length n"
  then show "broadcast (broadcast (\<lambda>s t. Inr (f s t))) m n = Inr (map2 (map2 f) m n)"
  proof (rule broadcast_same [where sh = length and sh' = length])
    fix u w :: vec assume "length u = length w"
    then have "map (\<lambda>_. ()) u = map (\<lambda>_. ()) w" by (simp add: list_eq_iff_nth_eq)
    then show "broadcast (\<lambda>s t. Inr (f s t)) u w = Inr (map2 f u w)"
      by (rule broadcast_same) simp
  qed
qed



lemma blend_second:
  "shape3 a = shape3 b \<Longrightarrow> map2 (map2 (map2 (\<lambda>(s::real) (t::real). t))) a b = b"
proof (induction a arbitrary: b)
  case Nil then show ?case by (simp add: shape3_def)
next
  case (Cons m a)
  then obtain n b' where b: "b = n # b'" by (cases b) (auto simp: shape3_def)
  from Cons.prems b have mn: "map length m = map length n" and sh: "shape3 a = shape3 b'"
    by (simp_all add: shape3_def)
  have "map2 (map2 (\<lambda>(s::real) (t::real). t)) m n = n" using mn
  proof (induction m arbitrary: n)
    case Nil then show ?case by simp
  next
    case (Cons u m)
    then obtain w n' where n: "n = w # n'" by (cases n) auto
    with Cons.prems have "length u = length w" "map length m = map length n'" by simp_all
    then show ?case using Cons.IH [of n'] n by (simp add: map2_second)
  qed
  then show ?case using Cons.IH [OF sh] b by simp
qed

lemma blend_first:
  "shape3 a = shape3 b \<Longrightarrow> map2 (map2 (map2 (\<lambda>(s::real) (t::real). s))) a b = a"
proof (induction a arbitrary: b)
  case Nil then show ?case by (simp add: shape3_def)
next
  case (Cons m a)
  then obtain n b' where b: "b = n # b'" by (cases b) (auto simp: shape3_def)
  from Cons.prems b have mn: "map length m = map length n" and sh: "shape3 a = shape3 b'"
    by (simp_all add: shape3_def)
  have "map2 (map2 (\<lambda>(s::real) (t::real). s)) m n = m" using mn
  proof (induction m arbitrary: n)
    case Nil then show ?case by simp
  next
    case (Cons u m)
    then obtain w n' where n: "n = w # n'" by (cases n) auto
    with Cons.prems have "length u = length w" "map length m = map length n'" by simp_all
    then show ?case using Cons.IH [of n'] n by (simp add: map2_first)
  qed
  then show ?case using Cons.IH [OF sh] b by simp
qed

lemma CrossAttention_q_injected:
  "CrossAttention_q m x (Some qi) cfg = Inr q \<longleftrightarrow>
     (\<exists>q_fresh. x \<noteq> [] \<and> project_heads (to_q m) (heads m) x = Inr q_fresh
        \<and> broadcast3 (\<lambda>s t. s * q_mix cfg + t * (1 - q_mix cfg))
             (concat (replicate (length x) qi)) q_fresh = Inr q)"
  by (auto simp: CrossAttention_q_def cat_times_def bindE_Inr_iff tadd_tscale split: if_splits)


lemma CrossAttention_forward_Inr:
  "CrossAttention_forward m x context msk qi ki vi cfg = Inr (y, m') \<longleftrightarrow>
    (\<exists>q k v sim sim' out out'.
       CrossAttention_q m x qi cfg = Inr q
     \<and> CrossAttention_kv (to_k m) (heads m) (case context of None \<Rightarrow> x | Some c \<Rightarrow> c) (length x) ki = Inr k
     \<and> CrossAttention_kv (to_v m) (heads m) (case context of None \<Rightarrow> x | Some c \<Rightarrow> c) (length x) vi = Inr v
     \<and> CrossAttention_sim m q k qi ki cfg = Inr sim
     \<and> CrossAttention_mask (heads m) sim msk = Inr sim'
     \<and> einsum_av (softmax sim') v = Inr out
     \<and> merge_heads (heads m) out = Inr out'
     \<and> Linear_forward (to_out m) out' = Inr y
     \<and> m' = m\<lparr>self_attn := Some (softmax sim'), self_q := Some q, self_k := Some k, self_v := Some v\<rparr>)"
  unfolding CrossAttention_forward_def CrossAttention_qkv_def
  by (auto simp: bindE_Inr_iff)

lemmas unit_eval = bindE_def project_heads_def Linear_forward_def Linear_row_def split_heads_def
  split_heads_mat_def cat_times_def tadd_def broadcast3_def broadcast_def tscale_def shape3_def
  dot_def einsum_qk_def
  einsum_av_def softmax_def softmax_row_def merge_heads_def masked_fill_def repeat_mask_def
  CrossAttention_q_def CrossAttention_kv_def CrossAttention_sim_def CrossAttention_mask_def
  CrossAttention_qkv_def CrossAttention_similarity_def
  CrossAttention_forward_def q_mix_def attn_matrix_scale_def unit_linear_def unit_attention_def

lemma MemoryEfficientCrossAttention_forward_Inr:
  "MemoryEfficientCrossAttention_forward attend m x context msk = Inr y \<longleftrightarrow>
     (\<exists>q k v q' k' v' out.
        Linear_forward (me_to_q m) x = Inr q
      \<and> Linear_forward (me_to_k m) (case context of None \<Rightarrow> x | Some c \<Rightarrow> c) = Inr k
      \<and> Linear_forward (me_to_v m) (case context of None \<Rightarrow> x | Some c \<Rightarrow> c) = Inr v
      \<and> reshape_heads (me_heads m) (me_dim_head m) q = Inr q'
      \<and> reshape_heads (me_heads m) (me_dim_head m) k = Inr k'
      \<and> reshape_heads (me_heads m) (me_dim_head m) v = Inr v'
      \<and> attend q' k' v' = Inr out
      \<and> msk = None
      \<and> bindE (unreshape_heads (length q) (me_heads m) (me_dim_head m) out)
           (Linear_forward (me_to_out m)) = Inr y)"
  unfolding MemoryEfficientCrossAttention_forward_def
  by (auto simp: bindE_Inr_iff split: if_splits)

lemma chunks_one: "chunks (Suc 0) xs = map (\<lambda>x. [x]) xs"
  by (induction xs) simp_all

lemma mean_single [simp]: "mean [a] = a"
  by (simp add: mean_def)

lemma variance_single [simp]: "variance [a] = 0"
  by (simp add: variance_def)

lemma upt_two: "[0..<2] = [0, Suc 0]"
  by (simp add: numeral_2_eq_2 upt_rec)

lemma transpose_singletons:
  assumes "xs \<noteq> []"
  shows "transpose (map (\<lambda>x. [x]) xs) = [xs]"
proof -
  from assms obtain a as where xs: "xs = a # as" by (cases xs) auto
  have heads: "concat (map (case_list [] (\<lambda>h t. [h]) \<circ> (\<lambda>x. [x])) as) = as"
    by (induction as) simp_all
  have tails: "transpose (concat (map (case_list [] (\<lambda>h t. [t]) \<circ> (\<lambda>x. [x])) as)) = []"
    by (simp add: transpose_empty)
  show ?thesis unfolding xs by (simp add: heads tails)
qed

lemma transpose_replicate_single:
  "0 < n \<Longrightarrow> transpose (replicate n [a]) = [replicate n a]"
  using transpose_singletons [of "replicate n a"] by (simp add: map_replicate)

lemma transpose_single_row: "transpose [xs] = map (\<lambda>x. [x]) xs"
  by (induction xs) simp_all

lemma dot_zeros [simp]: "dot w (replicate n 0) = 0"
proof -
  have "sum_list (map2 (*) w (replicate n (0::real))) = 0"
  proof (induction w arbitrary: n)
    case Nil then show ?case by simp
  next
    case (Cons a w) then show ?case by (cases n) simp_all
  qed
  then show ?thesis by (simp add: dot_def)
qed

lemma concat_replicate_single: "concat (replicate n [a]) = replicate n a"
  by (induction n) simp_all

lemma transpose_replicate_pair:
  "0 < n \<Longrightarrow> transpose (replicate n [a, b]) = [replicate n a, replicate n b]"
proof (cases n)
  case 0 then show "0 < n \<Longrightarrow> ?thesis" by simp
next
  case (Suc k)
  have "transpose ([b] # replicate k [b]) = [b # replicate k b]"
    using transpose_replicate_single [of "Suc k" b] by simp
  then show ?thesis
    by (simp add: Suc map_replicate concat_replicate_single)
qed

lemma transpose_pair_rows:
  "transpose [replicate n a, replicate n b] = replicate n [a, b]"
  by (induction n) simp_all

lemma chunks_pair: "chunks 2 [a, b] = [[a, b]]"
  by simp

lemma group_norm_size_replicate:
  "0 < n \<Longrightarrow> group_norm_size [replicate n [r]] = (n div 32) * length r"
  by (cases n) (simp_all add: group_norm_size_def)

lemma GroupNorm_forward_constant:
  "GroupNorm_forward \<lparr>gn_weight = replicate 32 1, gn_bias = replicate 32 0\<rparr>
     [replicate 32 [[2, 2]]] = Inr [replicate 32 [[0, 0]]]"
  by (simp add: GroupNorm_forward_def group_norm_size_replicate chunks_one GroupNorm_group_def
      zip_replicate map_replicate_const concat_replicate_trivial o_def mean_def variance_def)

lemma Linear_row_zeros:
  "Linear_row \<lparr>in_features = 32, out_features = Suc 0, weight = [replicate 32 1], bias = Some [0]\<rparr>
     (replicate 32 0) = Inr [0]"
  by (simp add: Linear_row_def)

lemma grid_hw_replicate: "0 < n \<Longrightarrow> grid_hw [replicate n [r]] = (1, length r)"
  by (cases n) (simp_all add: grid_hw_def)

lemma grid_hw_Cons:
  "grid_hw ((ch # chs) # xs) = (length ch, case ch of r # _ \<Rightarrow> length r | [] \<Rightarrow> 0)"
  by (simp add: grid_hw_def)






subsection \<open>Injection in the reference engine\<close>



text \<open>
  C2 as the specification states it fails: at \<^verbatim>\<open>gamma = 0\<close> the query of the unit
  module on the input 2 with the injected query 4 is 2, the fresh projection, and at
  \<^verbatim>\<open>gamma = 1\<close> it is 4, the injected one.
\<close>

theorem CrossAttention_gamma_zero_counterexample:
  "CrossAttention_forward unit_attention [[[2]]] None None (Some [[[4]]]) None None
       (Some \<lparr>cfg_T = 1, cfg_gamma = 0\<rparr>)
     = Inr ([[[2]]], unit_attention\<lparr>self_attn := Some [[[1]]], self_q := Some [[[2]]],
                                     self_k := Some [[[2]]], self_v := Some [[[2]]]\<rparr>)
   \<and> CrossAttention_forward unit_attention [[[2]]] None None (Some [[[4]]]) None None
       (Some \<lparr>cfg_T = 1, cfg_gamma = 1\<rparr>)
     = Inr ([[[2]]], unit_attention\<lparr>self_attn := Some [[[1]]], self_q := Some [[[4]]],
                                     self_k := Some [[[2]]], self_v := Some [[[2]]]\<rparr>)"
  by (simp add: unit_eval)

text \<open>
  C2, amended. Whenever \<^verbatim>\<open>CrossAttention.forward\<close> returns with \<^verbatim>\<open>q_injected\<close> and an
  \<^verbatim>\<open>injection_config\<close>: at \<^verbatim>\<open>gamma = 0\<close> the query is the fresh projection alone, and at
  \<^verbatim>\<open>gamma = 1\<close> it is the injected query, replicated over the batch, alone; each is
  broadcast to the common shape of the two where their shapes differ.
\<close>

theorem CrossAttention_gamma_endpoints:
  assumes "CrossAttention_forward m x context msk (Some qi) k_injected v_injected (Some c)
             = Inr (y, m')"
  shows "\<exists>q q_fresh.
           self_q m' = Some q \<and> project_heads (to_q m) (heads m) x = Inr q_fresh
         \<and> (cfg_gamma c = 0 \<longrightarrow>
               broadcast3 (\<lambda>a f. f) (concat (replicate (length x) qi)) q_fresh = Inr q)
         \<and> (cfg_gamma c = 1 \<longrightarrow>
               broadcast3 (\<lambda>a f. a) (concat (replicate (length x) qi)) q_fresh = Inr q)
         \<and> (shape3 (concat (replicate (length x) qi)) = shape3 q_fresh \<longrightarrow>
               (cfg_gamma c = 0 \<longrightarrow> q = q_fresh)
             \<and> (cfg_gamma c = 1 \<longrightarrow> q = concat (replicate (length x) qi)))"
proof -
  from assms obtain q where q: "CrossAttention_q m x (Some qi) (Some c) = Inr q"
    and m': "self_q m' = Some q"
    unfolding CrossAttention_forward_Inr by auto
  from q obtain q_fresh where fresh: "project_heads (to_q m) (heads m) x = Inr q_fresh"
    and mix: "broadcast3 (\<lambda>s t. s * cfg_gamma c + t * (1 - cfg_gamma c))
                (concat (replicate (length x) qi)) q_fresh = Inr q"
    by (auto simp: CrossAttention_q_injected q_mix_def)
  have zero: "cfg_gamma c = 0 \<longrightarrow>
      broadcast3 (\<lambda>a f. f) (concat (replicate (length x) qi)) q_fresh = Inr q"
    using mix by auto
  have one: "cfg_gamma c = 1 \<longrightarrow>
      broadcast3 (\<lambda>a f. a) (concat (replicate (length x) qi)) q_fresh = Inr q"
    using mix by auto
  have same: "shape3 (concat (replicate (length x) qi)) = shape3 q_fresh \<longrightarrow>
               (cfg_gamma c = 0 \<longrightarrow> q = q_fresh)
             \<and> (cfg_gamma c = 1 \<longrightarrow> q = concat (replicate (length x) qi))"
    using zero one by (auto simp: broadcast3_same_shape blend_first blend_second)
  show ?thesis
    apply (rule exI [of _ q], rule exI [of _ q_fresh])
    using m' fresh zero one same by (intro conjI) assumption+
qed

theorem CrossAttention_gamma_endpoints_witness:
  "CrossAttention_forward unit_attention [[[2]]] None None (Some [[[4], [6]]]) None None
       (Some \<lparr>cfg_T = 1, cfg_gamma = 0\<rparr>)
     = Inr ([[[2], [2]]], unit_attention\<lparr>self_attn := Some [[[1], [1]]], self_q := Some [[[2], [2]]],
                                     self_k := Some [[[2]]], self_v := Some [[[2]]]\<rparr>)
   \<and> project_heads (to_q unit_attention) (heads unit_attention) [[[2]]] = Inr [[[2]]]
   \<and> broadcast3 (\<lambda>a f. f) (concat (replicate (length [[[2::real]]]) [[[4], [6]]])) [[[2]]]
       = Inr [[[2], [2]]]"
proof -
  let ?m' = "unit_attention\<lparr>self_attn := Some [[[1], [1]]], self_q := Some [[[2], [2]]],
                                     self_k := Some [[[2]]], self_v := Some [[[2]]]\<rparr>"
  have run: "CrossAttention_forward unit_attention [[[2]]] None None (Some [[[4], [6]]]) None None
       (Some \<lparr>cfg_T = 1, cfg_gamma = 0\<rparr>) = Inr ([[[2], [2]]], ?m')"
    by (simp add: unit_eval)
  have fresh: "project_heads (to_q unit_attention) (heads unit_attention) [[[2]]] = Inr [[[2]]]"
    by (simp add: unit_eval)
  from CrossAttention_gamma_endpoints [OF run] obtain q q_fresh where
    "self_q ?m' = Some q"
    "project_heads (to_q unit_attention) (heads unit_attention) [[[2]]] = Inr q_fresh"
    "broadcast3 (\<lambda>a f. f) (concat (replicate (length [[[2::real]]]) [[[4], [6]]])) q_fresh = Inr q"
    by auto
  with fresh have "broadcast3 (\<lambda>a f. f) (concat (replicate (length [[[2::real]]]) [[[4], [6]]]))
      [[[2]]] = Inr [[[2], [2]]]"
    by simp
  with run fresh show ?thesis by blast
qed

text \<open>
  C3 as the specification states it fails: with \<^verbatim>\<open>v_injected\<close> alone and \<^verbatim>\<open>T = 3\<close> the
  similarity of the unit module on the input 2 is 4, what it is without any injection.
\<close>

theorem CrossAttention_similarity_only_v_counterexample:
  "CrossAttention_similarity unit_attention [[[2]]] None None None (Some [[[7]]])
       (Some \<lparr>cfg_T = 3, cfg_gamma = 0\<rparr>) = Inr [[[4]]]
   \<and> CrossAttention_similarity unit_attention [[[2]]] None None None None None = Inr [[[4]]]"
  by (simp add: unit_eval)

text \<open>
  C3, amended. Under an \<^verbatim>\<open>injection_config\<close>, every entry of the raw similarity
  \<^verbatim>\<open>Q K\<^sup>t\<close> is multiplied by \<^verbatim>\<open>T\<close> when \<^verbatim>\<open>q_injected\<close> or \<^verbatim>\<open>k_injected\<close> is given, and by
  nothing but the fixed \<^verbatim>\<open>scale\<close> otherwise, whether or not \<^verbatim>\<open>v_injected\<close> is given.
\<close>

theorem CrossAttention_similarity_scale:
  assumes "CrossAttention_qkv m x context q_injected k_injected v_injected (Some c) = Inr (q, k, v)"
    and "einsum_qk q k = Inr s"
  shows "CrossAttention_similarity m x context q_injected k_injected v_injected (Some c) =
           Inr (map (map (map (\<lambda>a. (if q_injected \<noteq> None \<or> k_injected \<noteq> None
                                       then a * cfg_T c else a) * scale m))) s)"
  using assms
  by (simp add: CrossAttention_similarity_def CrossAttention_sim_def attn_matrix_scale_def
        tscale_def comp_def)

theorem CrossAttention_similarity_scale_witness:
  "CrossAttention_qkv unit_attention [[[2]]] None None (Some [[[5]]]) None
       (Some \<lparr>cfg_T = 3, cfg_gamma = 0\<rparr>) = Inr ([[[2]]], [[[5]]], [[[2]]])
   \<and> einsum_qk [[[2]]] [[[5]]] = Inr [[[10]]]
   \<and> CrossAttention_similarity unit_attention [[[2]]] None None (Some [[[5]]]) None
       (Some \<lparr>cfg_T = 3, cfg_gamma = 0\<rparr>) = Inr [[[30]]]"
proof -
  have a: "CrossAttention_qkv unit_attention [[[2]]] None None (Some [[[5]]]) None
       (Some \<lparr>cfg_T = 3, cfg_gamma = 0\<rparr>) = Inr ([[[2]]], [[[5]]], [[[2]]])"
    by (simp add: unit_eval)
  have b: "einsum_qk [[[2]]] [[[5]]] = Inr [[[10]]]"
    by (simp add: unit_eval)
  show ?thesis
    using CrossAttention_similarity_scale [OF a b] a b by (simp add: unit_attention_def)
qed

text \<open>
  C9. With \<^verbatim>\<open>T = 1\<close> the similarity of an injected call is the similarity that the
  path without injection computes from the same \<^verbatim>\<open>Q\<close> and \<^verbatim>\<open>K\<close>.
\<close>

theorem CrossAttention_sim_T_one:
  assumes "cfg_T c = 1"
  shows "CrossAttention_sim m q k q_injected k_injected (Some c)
           = CrossAttention_sim m q k None None None"
  using assms
  by (cases "einsum_qk q k") (simp_all add: CrossAttention_sim_def attn_matrix_scale_def)

theorem CrossAttention_sim_T_one_witness:
  "cfg_T \<lparr>cfg_T = 1, cfg_gamma = 1 / 2\<rparr> = 1
   \<and> CrossAttention_sim unit_attention [[[2]]] [[[3]]] None (Some [[[3]]])
        (Some \<lparr>cfg_T = 1, cfg_gamma = 1 / 2\<rparr>) = Inr [[[6]]]
   \<and> CrossAttention_sim unit_attention [[[2]]] [[[3]]] None None None = Inr [[[6]]]"
  using CrossAttention_sim_T_one [of "\<lparr>cfg_T = 1, cfg_gamma = 1 / 2\<rparr>" unit_attention
      "[[[2]]]" "[[[3]]]" None "Some [[[3]]]"]
  by (simp add: unit_eval)




subsection \<open>The memory-efficient engine and masks\<close>

text \<open>
  C7. \<^verbatim>\<open>MemoryEfficientCrossAttention.forward\<close> with a mask never returns an output; where
  the same call without the mask returns, the call with it raises
  \<^verbatim>\<open>NotImplementedError\<close> (an earlier failure of a projection or of the fused kernel
  is raised as it is).
\<close>

theorem MemoryEfficientCrossAttention_mask_raises:
  assumes "msk \<noteq> None"
  shows "(\<forall>y. MemoryEfficientCrossAttention_forward attend m x context msk \<noteq> Inr y)
       \<and> (\<forall>y. MemoryEfficientCrossAttention_forward attend m x context None = Inr y
              \<longrightarrow> MemoryEfficientCrossAttention_forward attend m x context msk
                    = Inl NotImplementedError)"
proof (intro conjI allI impI)
  fix y
  show "MemoryEfficientCrossAttention_forward attend m x context msk \<noteq> Inr y"
    using assms by (simp add: MemoryEfficientCrossAttention_forward_Inr)
next
  fix y
  assume "MemoryEfficientCrossAttention_forward attend m x context None = Inr y"
  then obtain q k v q' k' v' out where
    "Linear_forward (me_to_q m) x = Inr q"
    "Linear_forward (me_to_k m) (case context of None \<Rightarrow> x | Some c \<Rightarrow> c) = Inr k"
    "Linear_forward (me_to_v m) (case context of None \<Rightarrow> x | Some c \<Rightarrow> c) = Inr v"
    "reshape_heads (me_heads m) (me_dim_head m) q = Inr q'"
    "reshape_heads (me_heads m) (me_dim_head m) k = Inr k'"
    "reshape_heads (me_heads m) (me_dim_head m) v = Inr v'"
    "attend q' k' v' = Inr out"
    unfolding MemoryEfficientCrossAttention_forward_Inr by blast
  then show "MemoryEfficientCrossAttention_forward attend m x context msk = Inl NotImplementedError"
    using assms by (simp add: MemoryEfficientCrossAttention_forward_def)
qed

theorem MemoryEfficientCrossAttention_mask_raises_witness:
  "Some [[True]] \<noteq> (None :: bool list list option)
   \<and> MemoryEfficientCrossAttention_forward (fused_attention 1) unit_memory_efficient [[[2]]] None None
       = Inr [[[2]]]
   \<and> MemoryEfficientCrossAttention_forward (fused_attention 1) unit_memory_efficient [[[2]]] None
       (Some [[True]]) = Inl NotImplementedError"
proof -
  have run: "MemoryEfficientCrossAttention_forward (fused_attention 1) unit_memory_efficient
      [[[2]]] None None = Inr [[[2]]]"
    by (simp add: MemoryEfficientCrossAttention_forward_def fused_attention_def
        unit_memory_efficient_def unit_linear_def reshape_heads_def unreshape_heads_def
        Linear_forward_def Linear_row_def dot_def einsum_qk_def einsum_av_def softmax_def
        softmax_row_def tscale_def)
  show ?thesis
    using MemoryEfficientCrossAttention_mask_raises
      [of "Some [[True]]" "fused_attention 1" unit_memory_efficient "[[[2]]]" None] run
    by simp
qed

subsection \<open>The transformer block and its context\<close>

lemmas init_eval = BasicTransformerBlock_init_def attn_cls_def CrossAttention_init_def
  MemoryEfficientCrossAttention_init_def FeedForward_init_def LayerNorm_init_def Linear_init_def
  sub_def ones_def

lemmas block_eval = BasicTransformerBlock_forward_def attn1_call_def attn2_call_def
  LayerNorm_forward_def LayerNorm_row_def mean_def variance_def FeedForward_forward_def
  project_in_row_def kept_keys_def

lemma BasicTransformerBlock_forward_Inr:
  assumes "BasicTransformerBlock_forward attend blk x context qi ki vi cfg = Inr (y, blk')"
  shows "\<exists>n1 xa a1 x1 n2 y2 a2.
           LayerNorm_forward (norm1 blk) x = Inr n1
         \<and> attn1_call (attn1 blk) n1 qi ki vi cfg = Inr (xa, a1)
         \<and> tadd xa x = Inr x1
         \<and> LayerNorm_forward (norm2 blk) x1 = Inr n2
         \<and> attn2_call attend (attn2 blk) n2 context = Inr (y2, a2)
         \<and> attn1 blk' = a1 \<and> attn2 blk' = a2"
  using assms unfolding BasicTransformerBlock_forward_def
  by (auto simp: bindE_Inr_iff)

text \<open>
  In a block of the reference engine that returns, with no key injected and whatever
  \<^verbatim>\<open>disable_self_attn\<close> and the context are: the key that \<^verbatim>\<open>attn1\<close> keeps is the projection
  of the block's own normalised input, and the key that \<^verbatim>\<open>attn2\<close> keeps is the projection
  of the context, or of its normalised input where there is no context.
\<close>

theorem BasicTransformerBlock_contexts:
  assumes run: "BasicTransformerBlock_forward attend blk x context qi None vi cfg = Inr (y, blk')"
    and a1: "attn1 blk = Softmax m1" and a2: "attn2 blk = Softmax m2"
  shows "\<exists>n1 x1 n2 k1 k2.
           LayerNorm_forward (norm1 blk) x = Inr n1
         \<and> project_heads (to_k m1) (heads m1) n1 = Inr k1
         \<and> fst (kept_keys blk') = Some k1
         \<and> LayerNorm_forward (norm2 blk) x1 = Inr n2
         \<and> project_heads (to_k m2) (heads m2) (case context of None \<Rightarrow> n2 | Some c \<Rightarrow> c) = Inr k2
         \<and> snd (kept_keys blk') = Some k2"
proof -
  from BasicTransformerBlock_forward_Inr [OF run] obtain n1 xa b1 x1 n2 y2 b2 where
    n1: "LayerNorm_forward (norm1 blk) x = Inr n1"
    and c1: "attn1_call (attn1 blk) n1 qi None vi cfg = Inr (xa, b1)"
    and n2: "LayerNorm_forward (norm2 blk) x1 = Inr n2"
    and c2: "attn2_call attend (attn2 blk) n2 context = Inr (y2, b2)"
    and blk': "attn1 blk' = b1" "attn2 blk' = b2"
    by blast
  from c1 a1 obtain m1' where m1': "b1 = Softmax m1'"
    "CrossAttention_forward m1 n1 None None qi None vi cfg = Inr (xa, m1')"
    by (auto simp: attn1_call_def bindE_Inr_iff)
  from c2 a2 obtain m2' where m2': "b2 = Softmax m2'"
    "CrossAttention_forward m2 n2 context None None None None None = Inr (y2, m2')"
    by (auto simp: attn2_call_def bindE_Inr_iff)
  from m1'(2) obtain k1 where k1: "project_heads (to_k m1) (heads m1) n1 = Inr k1"
    "self_k m1' = Some k1"
    by (auto simp: CrossAttention_forward_Inr CrossAttention_kv_def)
  from m2'(2) obtain k2 where k2:
    "project_heads (to_k m2) (heads m2) (case context of None \<Rightarrow> n2 | Some c \<Rightarrow> c) = Inr k2"
    "self_k m2' = Some k2"
    by (auto simp: CrossAttention_forward_Inr CrossAttention_kv_def)
  from n1 n2 k1 k2 blk' m1'(1) m2'(1) show ?thesis
    by (auto simp: kept_keys_def)
qed

text \<open>
  C4 fails on the code in its first part. A block built with \<^verbatim>\<open>disable_self_attn=True\<close>
  has an \<^verbatim>\<open>attn1\<close> whose key and value projections take \<^verbatim>\<open>context_dim\<close> channels, and
  \<^verbatim>\<open>_forward\<close> calls it without the context. With \<^verbatim>\<open>dim = 1\<close> and \<^verbatim>\<open>context_dim = 2\<close>
  the call on the input 2 with the context \<^verbatim>\<open>(5, 6)\<close> raises a shape error; with
  \<^verbatim>\<open>context_dim = 1\<close> and the context 5 it returns, and the key that \<^verbatim>\<open>attn1\<close> keeps is
  0, the projection of its own normalised input, while \<^verbatim>\<open>attn2\<close> keeps 5.
\<close>

theorem BasicTransformerBlock_disable_self_attn_ignores_context:
  "bindE (BasicTransformerBlock_init False ones 0 1 1 1 (Some 2) True True True)
     (\<lambda>blk. BasicTransformerBlock_forward attend blk [[[2]]] (Some [[[5, 6]]])
               None None None None)
     = Inl ShapeMismatch
   \<and> bindE (BasicTransformerBlock_init False ones 0 1 1 1 (Some 1) True True True)
       (\<lambda>blk. bindE (BasicTransformerBlock_forward attend blk [[[2]]] (Some [[[5]]])
                        None None None None)
                 (\<lambda>(y, blk'). Inr (kept_keys blk')))
     = Inr (Some [[[0]]], Some [[[5]]])"
  by (simp add: init_eval block_eval unit_eval)

subsection \<open>The spatial transformer\<close>

lemmas st_init_eval = init_eval SpatialTransformer_init_def Normalize_def zero_module_def
  linear_transformer_def conv_transformer_def two_block_transformer_def upt_two

lemmas st_eval = SpatialTransformer_forward_def GroupNorm_forward_constant grid_hw_replicate
  grid_hw_Cons sum_list_replicate transpose_replicate_pair transpose_pair_rows
  transpose_replicate_single transpose_single_row chunks_one
  Linear_forward_def Linear_row_zeros conv1x1_def tokens_to_grid_def grid_to_tokens_def
  gadd_def shape4_def

lemma dot_zero_left: "dot (map (\<lambda>_. 0) w) r = 0"
proof -
  have "sum_list (map2 (*) (map (\<lambda>_. 0::real) w) r) = 0"
  proof (induction w arbitrary: r)
    case Nil then show ?case by simp
  next
    case (Cons a w) then show ?case by (cases r) simp_all
  qed
  then show ?thesis by (simp add: dot_def)
qed

lemma Linear_row_zero_module:
  assumes "Linear_row (zero_module l) r = Inr v"
  shows "\<forall>a\<in>set v. a = 0"
proof (cases "bias l")
  case None
  with assms show ?thesis
    by (auto simp: Linear_row_def zero_module_def dot_zero_left split: if_splits)
next
  case (Some b)
  with assms show ?thesis
    by (auto simp: Linear_row_def zero_module_def dot_zero_left set_zip split: if_splits)
qed

lemma mapE_Inr_set:
  "mapE f xs = Inr ys \<Longrightarrow> \<forall>y\<in>set ys. \<exists>x\<in>set xs. f x = Inr y"
proof (induction xs arbitrary: ys)
  case Nil then show ?case by simp
next
  case (Cons x xs)
  then obtain y ys' where "f x = Inr y" "mapE f xs = Inr ys'" "ys = y # ys'"
    by (auto simp: bindE_Inr_iff)
  with Cons.IH [of ys'] show ?case by auto
qed

lemma Linear_forward_zero_module:
  assumes "Linear_forward (zero_module l) t = Inr t'"
  shows "zeros3 t'"
  unfolding zeros3_def
proof (intro ballI)
  fix m r a assume "m \<in> set t'" "r \<in> set m" "a \<in> set r"
  from mapE_Inr_set [OF assms [unfolded Linear_forward_def]] \<open>m \<in> set t'\<close>
  obtain m0 where "mapE (Linear_row (zero_module l)) m0 = Inr m" by blast
  from mapE_Inr_set [OF this] \<open>r \<in> set m\<close>
  obtain r0 where "Linear_row (zero_module l) r0 = Inr r" by blast
  from Linear_row_zero_module [OF this] \<open>a \<in> set r\<close> show "a = 0" by blast
qed

lemma set_transpose_subset: "r \<in> set (transpose xss) \<Longrightarrow> set r \<subseteq> \<Union> (set ` set xss)"
proof (induction xss arbitrary: r rule: transpose.induct)
  case 1 then show ?case by simp
next
  case (2 xss) then show ?case by auto
next
  case (3 x xs xss)
  from "3.prems" consider
      "r = x # concat (map (case_list [] (\<lambda>h t. [h])) xss)"
    | "r \<in> set (transpose (xs # concat (map (case_list [] (\<lambda>h t. [t])) xss)))"
    by auto
  then show ?case
  proof cases
    case 1 then show ?thesis by (auto split: list.splits)
  next
    case 2
    from "3.IH" [OF 2] show ?thesis by (fastforce split: list.splits)
  qed
qed

lemma set_chunks_subset: "c \<in> set (chunks w xs) \<Longrightarrow> set c \<subseteq> set xs"
proof (induction w xs arbitrary: c rule: chunks.induct)
  case (1 h) then show ?case by simp
next
  case (2 h x xs)
  show ?case
  proof (cases "h = 0")
    case True with "2.prems" show ?thesis by simp
  next
    case False
    with "2.prems" consider "c = take h (x # xs)" | "c \<in> set (chunks h (drop h (x # xs)))"
      by auto
    then show ?thesis
    proof cases
      case 1 then show ?thesis using set_take_subset [of h "x # xs"] by simp
    next
      case 2
      from "2.IH" [OF False 2] set_drop_subset [of h "x # xs"] show ?thesis by blast
    qed
  qed
qed

lemma tokens_to_grid_zeros:
  assumes "tokens_to_grid h w t = Inr g" and "zeros3 t"
  shows "\<forall>gb\<in>set g. \<forall>ch\<in>set gb. \<forall>row\<in>set ch. \<forall>a\<in>set row. a = 0"
proof (intro ballI)
  fix gb ch row a assume in_g: "gb \<in> set g" "ch \<in> set gb" "row \<in> set ch" "a \<in> set row"
  from mapE_Inr_set [OF assms(1) [unfolded tokens_to_grid_def]] in_g(1)
  obtain m where m: "m \<in> set t" "gb = map (chunks w) (transpose m)"
    by (auto split: if_splits)
  from in_g(2) m(2) obtain r where r: "r \<in> set (transpose m)" "ch = chunks w r" by auto
  from set_chunks_subset in_g(3) r(2) have "set row \<subseteq> set r" by blast
  with set_transpose_subset [OF r(1)] in_g(4) obtain r0 where "r0 \<in> set m" "a \<in> set r0"
    by blast
  with m(1) assms(2) show "a = 0" by (auto simp: zeros3_def)
qed

lemma map2_add_zero:
  "length u = length w \<Longrightarrow> \<forall>a\<in>set u. a = (0::real) \<Longrightarrow> map2 (+) u w = w"
  by (induction u w rule: list_induct2) simp_all

lemma map2_left_unit:
  assumes "map sh a = map sh' b"
    and "\<And>u w. u \<in> set a \<Longrightarrow> sh u = sh' w \<Longrightarrow> f u w = w"
  shows "map2 f a b = b"
  using assms
proof (induction a arbitrary: b)
  case Nil then show ?case by simp
next
  case (Cons u a)
  then obtain w b' where b: "b = w # b'" by (cases b) auto
  with Cons.prems(1) have "sh u = sh' w" "map sh a = map sh' b'" by simp_all
  with Cons.IH [of b'] Cons.prems(2) b show ?case by simp
qed

lemma gadd_zeros:
  assumes "gadd g x = Inr y"
    and zero: "\<forall>gb\<in>set g. \<forall>ch\<in>set gb. \<forall>row\<in>set ch. \<forall>a\<in>set row. a = 0"
  shows "y = x"
proof -
  from assms(1) have sh: "shape4 g = shape4 x" and y: "y = map2 (map2 (map2 (map2 (+)))) g x"
    by (auto simp: gadd_def split: if_splits)
  have "map2 (map2 (map2 (map2 (+)))) g x = x"
  proof (rule map2_left_unit [where sh = "map (map length)" and sh' = "map (map length)"])
    show "map (map (map length)) g = map (map (map length)) x"
      using sh by (simp add: shape4_def)
  next
    fix gb xb :: "real list list list" assume gb: "gb \<in> set g" and s3: "map (map length) gb = map (map length) xb"
    show "map2 (map2 (map2 (+))) gb xb = xb"
    proof (rule map2_left_unit [where sh = "map length" and sh' = "map length", OF s3])
      fix ch xc :: "real list list" assume ch: "ch \<in> set gb" and s2: "map length ch = map length xc"
      show "map2 (map2 (+)) ch xc = xc"
      proof (rule map2_left_unit [where sh = length and sh' = length, OF s2])
        fix row xr :: "real list" assume row: "row \<in> set ch" and s1: "length row = length xr"
        from zero gb ch row have "\<forall>a\<in>set row. a = 0" by blast
        with s1 show "map2 (+) row xr = xr" by (rule map2_add_zero)
      qed
    qed
  qed
  with y show ?thesis by simp
qed

lemma conv1x1_zero_module:
  assumes "conv1x1 (zero_module l) g = Inr y"
  shows "\<forall>gb\<in>set y. \<forall>ch\<in>set gb. \<forall>row\<in>set ch. \<forall>a\<in>set row. a = 0"
proof -
  from assms obtain t where t: "Linear_forward (zero_module l) (grid_to_tokens g) = Inr t"
    and y: "tokens_to_grid (fst (grid_hw g)) (snd (grid_hw g)) t = Inr y"
    by (auto simp: conv1x1_def bindE_Inr_iff)
  from tokens_to_grid_zeros [OF y Linear_forward_zero_module [OF t]] show ?thesis .
qed

lemma SpatialTransformer_init_proj_out:
  assumes "SpatialTransformer_init xf g n_in n_heads d_head depth cdim disable lin ckpt = Inr st"
  shows "\<exists>l. proj_out st = zero_module l"
  using assms unfolding SpatialTransformer_init_def
  by (auto simp: bindE_Inr_iff)

text \<open>
  The output projection of a freshly constructed transformer is zero in both modes:
  whenever its forward pass returns, it returns the input grid, for every input, context
  and injection.
\<close>

theorem SpatialTransformer_fresh_identity:
  assumes init: "SpatialTransformer_init xf g n_in n_heads d_head depth cdim disable lin ckpt
                   = Inr st"
    and run: "SpatialTransformer_forward attend st x ctx qi ki vi cfg = Inr (y, st')"
  shows "y = x"
proof -
  from SpatialTransformer_init_proj_out [OF init] obtain l where
    l: "proj_out st = zero_module l" by blast
  show ?thesis
  proof (cases "use_linear st")
    case False
    with run obtain g0 y' where
      "conv1x1 (proj_out st) g0 = Inr y'" and "gadd y' x = Inr y"
      unfolding SpatialTransformer_forward_def
      by (auto simp: bindE_Inr_iff split: if_splits)
    with conv1x1_zero_module [of l g0 y'] l show ?thesis
      by (auto intro: gadd_zeros)
  next
    case True
    with run obtain t t' y' where
      "Linear_forward (proj_out st) t = Inr t'"
      and "tokens_to_grid (fst (grid_hw x)) (snd (grid_hw x)) t' = Inr y'"
      and "gadd y' x = Inr y"
      unfolding SpatialTransformer_forward_def
      by (auto simp: bindE_Inr_iff split: if_splits)
    with tokens_to_grid_zeros [of "fst (grid_hw x)" "snd (grid_hw x)" t' y']
      Linear_forward_zero_module [of l t t'] l show ?thesis
      by (auto intro: gadd_zeros)
  qed
qed

text \<open>
  C5 fails on the code in \<^verbatim>\<open>use_linear\<close> mode. The zeroed output projection of that mode is
  built as \<^verbatim>\<open>nn.Linear(in_channels, inner_dim)\<close>, the dimensions of the input projection,
  and is applied to rows of width \<^verbatim>\<open>inner_dim\<close>: with 32 channels and
  \<^verbatim>\<open>inner_dim = 1\<close> the fresh transformer raises a shape error on the constant grid 2 of
  shape \<^verbatim>\<open>[1, 32, 1, 2]\<close>, where the fresh transformer of the 1x1-convolution mode
  returns that grid.
\<close>

theorem SpatialTransformer_use_linear_raises:
  "SpatialTransformer_init False ones 32 1 1 1 (OneDim 1) False True True = Inr linear_transformer
   \<and> SpatialTransformer_forward attend linear_transformer [replicate 32 [[2, 2]]]
        (Single (Some [[[5]]])) None None None None = Inl ShapeMismatch
   \<and> SpatialTransformer_init False ones 32 1 1 1 (OneDim 1) False False True = Inr conv_transformer
   \<and> map_sum id fst (SpatialTransformer_forward attend conv_transformer [replicate 32 [[2, 2]]]
        (Single (Some [[[5]]])) None None None None) = Inr [replicate 32 [[2, 2]]]"
  by (simp add: st_init_eval st_eval block_eval unit_eval)






end
